theory Spec2Isabelle
  imports Main "HOL-Library.AList"
begin

section \<open>The realtime socket handler of WeUnion\<close>

text \<open>
  This theory embeds \<^verbatim>\<open>src/server/socket/socketHandler.js\<close> together with the tables of
  \<^verbatim>\<open>src/database/init.sql\<close> that its queries read and write.

  JavaScript runs every handler to completion between two \<^verbatim>\<open>await\<close> points on a single
  thread. Each handler of the source (the \<^verbatim>\<open>io.use\<close> middleware, the \<^verbatim>\<open>connection\<close> handler,
  the \<^verbatim>\<open>disconnect\<close> handler, \<^verbatim>\<open>handleSendMessage\<close>, \<^verbatim>\<open>handleMarkMessagesRead\<close>) is modelled as
  one function from the server state to the server state; the store answers its queries
  from the tables as they are at that step, and is assumed reachable (a failed connection to
  the store is not modelled, a violated constraint of the schema is). Handlers of different
  sockets interleave as whole steps.
\<close>

subsection \<open>Identifiers and JavaScript values\<close>

type_synonym user_id = nat
type_synonym socket_id = string
type_synonym conversation_id = nat
type_synonym message_id = nat

text \<open>The two kinds of JavaScript value that the registry holds: user ids are numbers
  (the \<^verbatim>\<open>SERIAL\<close> key of \<^verbatim>\<open>users\<close>, carried in the token), socket ids are strings.\<close>

datatype js_value = JNumber int | JString string

text \<open>Every id column of \<^verbatim>\<open>init.sql\<close> is a PostgreSQL \<^verbatim>\<open>INTEGER\<close> (\<^verbatim>\<open>SERIAL\<close>, or
  \<^verbatim>\<open>INTEGER REFERENCES\<close>). A number that a query passes for such a column and that lies beyond
  the type is refused when the parameter is bound: the query is not executed, and it throws.
  No row of a table holds such a number.\<close>

definition pg_integer :: "nat \<Rightarrow> bool" where
  "pg_integer n = (int n \<le> 2147483647)"

text \<open>\<^verbatim>\<open>Array.prototype.includes\<close>: SameValueZero, which on numbers that are integers and on
  strings is equality, and never identifies a number with a string.\<close>

definition array_includes :: "js_value list \<Rightarrow> js_value \<Rightarrow> bool" where
  "array_includes xs v = (v \<in> set xs)"

subsection \<open>The admission attempt table\<close>

record attempts =
  count :: nat
  lastAttempt :: int
  blocked :: bool

definition MAX_ATTEMPTS :: nat where
  "MAX_ATTEMPTS = 3"

definition BLOCK_DURATION :: int where
  "BLOCK_DURATION = 10000"

definition ATTEMPT_WINDOW :: int where
  "ATTEMPT_WINDOW = 5000"

text \<open>A JavaScript \<^verbatim>\<open>Map\<close> is an association list: \<^verbatim>\<open>get\<close> is \<^const>\<open>map_of\<close>, \<^verbatim>\<open>set\<close> is
  \<^const>\<open>AList.update\<close> (an existing key keeps its place, a new one goes last), \<^verbatim>\<open>delete\<close> is
  \<^const>\<open>AList.delete\<close>.\<close>

type_synonym attempt_table = "(user_id \<times> attempts) list"

text \<open>Line 28: \<^verbatim>\<open>connectionAttempts.get(userId) || { count: 0, lastAttempt: 0, blocked: false }\<close>.\<close>

definition attempts_of :: "attempt_table \<Rightarrow> user_id \<Rightarrow> attempts" where
  "attempts_of tbl uid =
     (case map_of tbl uid of
        Some a \<Rightarrow> a
      | None \<Rightarrow> \<lparr>count = 0, lastAttempt = 0, blocked = False\<rparr>)"

text \<open>Lines 26 to 56 of the middleware. The record read from the table is mutated in place
  by the source and stored again on every path that changed it; the path that returns at
  line 32 has changed nothing. The result is whether the attempt may go on, and the table.\<close>

definition rate_limit :: "int \<Rightarrow> user_id \<Rightarrow> attempt_table \<Rightarrow> bool \<times> attempt_table" where
  "rate_limit now uid tbl =
     (let a0 = attempts_of tbl uid
      in if blocked a0 \<and> now - lastAttempt a0 < BLOCK_DURATION then (False, tbl)
         else
           let a1 = (if blocked a0 \<and> now - lastAttempt a0 \<ge> BLOCK_DURATION
                     then a0\<lparr>blocked := False, count := 0\<rparr> else a0)
           in if now - lastAttempt a1 < ATTEMPT_WINDOW then
                let a2 = a1\<lparr>count := count a1 + 1\<rparr>
                in if count a2 > MAX_ATTEMPTS
                   then (False, AList.update uid (a2\<lparr>blocked := True, lastAttempt := now\<rparr>) tbl)
                   else (True, AList.update uid (a2\<lparr>lastAttempt := now\<rparr>) tbl)
              else (True, AList.update uid (a1\<lparr>count := 1, lastAttempt := now\<rparr>) tbl))"

text \<open>Lines 91 to 97 of the connection handler: a successful connection clears the count
  and the block of a record that exists.\<close>

definition reset_attempts :: "user_id \<Rightarrow> attempt_table \<Rightarrow> attempt_table" where
  "reset_attempts uid tbl =
     (case map_of tbl uid of
        Some a \<Rightarrow> AList.update uid (a\<lparr>count := 0, blocked := False\<rparr>) tbl
      | None \<Rightarrow> tbl)"

subsection \<open>The store\<close>

text \<open>The tables of \<^verbatim>\<open>init.sql\<close> that the handler queries, with the columns it reads or
  writes. A table with a primary key that the handler looks rows up by is keyed by it.
  Timestamps are readings of one clock, in milliseconds.\<close>

record user_row =
  row_username :: string
  display_name :: string
  avatar_url :: "string option"
  status :: string

record session_row =
  session_user_id :: user_id
  token_hash :: string
  expires_at :: int

record contact_row =
  contact_user_id :: user_id
  contact_id :: user_id
  contact_status :: string

record conversation_row =
  conv_id :: conversation_id
  group_id :: "nat option"
  updated_at :: int

record message_row =
  msg_id :: message_id
  msg_conversation_id :: conversation_id
  sender_id :: user_id
  msg_content :: string
  message_type :: string
  reply_to :: "message_id option"
  created_at :: int

record database =
  users :: "(user_id \<times> user_row) list"
  user_sessions :: "session_row list"
  contacts :: "contact_row list"
  conversations :: "conversation_row list"
  conversation_participants :: "(conversation_id \<times> user_id) list"
  group_members :: "(nat \<times> user_id) list"
  messages :: "message_row list"
  messages_id_seq :: message_id
  message_reads :: "(message_id \<times> user_id) list"

text \<open>\<^verbatim>\<open>xs LEFT JOIN ys ON cond\<close>: every row of \<open>xs\<close> with each row of \<open>ys\<close> it matches, and
  with \<^verbatim>\<open>NULL\<close> when it matches none. A comparison with \<^verbatim>\<open>NULL\<close> is not true, so a
  \<^verbatim>\<open>WHERE\<close> built from \<^verbatim>\<open>=\<close>, \<^verbatim>\<open>AND\<close> and \<^verbatim>\<open>OR\<close> drops the row where HOL's equality with
  \<^const>\<open>None\<close> is false.\<close>

definition left_join :: "'a list \<Rightarrow> 'b list \<Rightarrow> ('a \<Rightarrow> 'b \<Rightarrow> bool) \<Rightarrow> ('a \<times> 'b option) list" where
  "left_join xs ys cond =
     concat (map (\<lambda>x. case filter (cond x) ys of
                         [] \<Rightarrow> [(x, None)]
                       | y # m \<Rightarrow> map (\<lambda>y'. (x, Some y')) (y # m)) xs)"

text \<open>The query of lines 71 to 74: the user's row joined with its sessions, kept where the
  session's token is the presented one or there is no session, and where it has not
  expired or there is no session.\<close>

definition session_query :: "database \<Rightarrow> int \<Rightarrow> user_id \<Rightarrow> string
    \<Rightarrow> ((user_id \<times> user_row) \<times> session_row option) list" where
  "session_query d now uid token =
     filter (\<lambda>(u, s). fst u = uid
               \<and> (case s of Some r \<Rightarrow> token_hash r = token | None \<Rightarrow> True)
               \<and> (case s of Some r \<Rightarrow> expires_at r > now | None \<Rightarrow> True))
       (left_join (users d) (user_sessions d) (\<lambda>u s. fst u = session_user_id s))"

text \<open>\<^verbatim>\<open>UPDATE users SET status = $1 WHERE id = $2 AND status != $1\<close>.\<close>

definition update_status :: "user_id \<Rightarrow> string \<Rightarrow> database \<Rightarrow> database" where
  "update_status uid st d =
     d\<lparr>users := map (\<lambda>(i, r). if i = uid \<and> status r \<noteq> st then (i, r\<lparr>status := st\<rparr>) else (i, r))
                    (users d)\<rparr>"

text \<open>The query of \<^verbatim>\<open>broadcastUserStatus\<close> (lines 311 to 319).\<close>

definition accepted_contacts :: "database \<Rightarrow> user_id \<Rightarrow> user_id list" where
  "accepted_contacts d uid =
     remdups (map (\<lambda>c. if contact_user_id c = uid then contact_id c else contact_user_id c)
       (filter (\<lambda>c. (contact_user_id c = uid \<or> contact_id c = uid)
                     \<and> contact_status c = ''accepted'') (contacts d)))"

text \<open>The join that both \<^verbatim>\<open>joinUserConversations\<close> and the access check of
  \<^verbatim>\<open>handleSendMessage\<close> select from.\<close>

definition conversation_joins :: "database
    \<Rightarrow> ((conversation_row \<times> (conversation_id \<times> user_id) option) \<times> (nat \<times> user_id) option) list" where
  "conversation_joins d =
     left_join
       (left_join (conversations d) (conversation_participants d) (\<lambda>c cp. conv_id c = fst cp))
       (group_members d) (\<lambda>ccp gm. group_id (fst ccp) = Some (fst gm))"

definition member_row :: "user_id \<Rightarrow> (conversation_id \<times> user_id) option \<Rightarrow> (nat \<times> user_id) option \<Rightarrow> bool" where
  "member_row uid cp gm = (map_option snd cp = Some uid \<or> map_option snd gm = Some uid)"

text \<open>Lines 200 to 206: \<^verbatim>\<open>SELECT DISTINCT c.id ... WHERE cp.user_id = $1 OR gm.user_id = $1\<close>.\<close>

definition user_conversations :: "database \<Rightarrow> user_id \<Rightarrow> conversation_id list" where
  "user_conversations d uid =
     remdups (map (\<lambda>r. conv_id (fst (fst r)))
       (filter (\<lambda>r. member_row uid (snd (fst r)) (snd r)) (conversation_joins d)))"

text \<open>Lines 227 to 233: \<^verbatim>\<open>WHERE c.id = $1 AND (cp.user_id = $2 OR gm.user_id = $2)\<close>, the rows
  the query selects.\<close>

definition access_rows :: "database \<Rightarrow> conversation_id \<Rightarrow> user_id \<Rightarrow> conversation_id list" where
  "access_rows d cid uid =
     map (\<lambda>r. conv_id (fst (fst r)))
       (filter (\<lambda>r. conv_id (fst (fst r)) = cid \<and> member_row uid (snd (fst r)) (snd r))
          (conversation_joins d))"

text \<open>The query of lines 227 to 233 as the handler awaits it: \<^const>\<open>None\<close> when it throws,
  which it does when the conversation id of the event, or the user id of the socket, is
  beyond \<^verbatim>\<open>INTEGER\<close>.\<close>

definition accessCheck :: "database \<Rightarrow> conversation_id \<Rightarrow> user_id \<Rightarrow> conversation_id list option" where
  "accessCheck d cid uid =
     (if pg_integer cid \<and> pg_integer uid then Some (access_rows d cid uid) else None)"

text \<open>A query of the source that the store refuses throws in the handler that awaits it.\<close>

datatype completion = Returned | Threw

text \<open>Lines 241 to 245: \<^verbatim>\<open>INSERT INTO messages ... RETURNING id, created_at\<close>. The id is the
  next value of the table's sequence.

  The statement is refused before it is executed, and the sequence is left as it is, when
  \<^verbatim>\<open>message_type\<close> does not fit \<^verbatim>\<open>VARCHAR(20)\<close> or an id it passes is beyond \<^verbatim>\<open>INTEGER\<close>. It is
  refused when it is executed, after the sequence has given its value, when
  \<^verbatim>\<open>conversation_id\<close>, \<^verbatim>\<open>sender_id\<close> or \<^verbatim>\<open>reply_to\<close> references no row; a \<^verbatim>\<open>reply_to\<close> that is the
  id the new row gets references the new row. A \<^verbatim>\<open>reply_to\<close> beyond \<^verbatim>\<open>INTEGER\<close> references no
  row, as no row holds such an id, and the statement that passes one is refused
  unexecuted.\<close>

definition insert_message :: "int \<Rightarrow> conversation_id \<Rightarrow> user_id \<Rightarrow> string \<Rightarrow> string
    \<Rightarrow> message_id option \<Rightarrow> database \<Rightarrow> message_row option \<times> database" where
  "insert_message now cid uid c mt rt d =
     (let row = \<lparr>msg_id = messages_id_seq d, msg_conversation_id = cid, sender_id = uid,
                  msg_content = c, message_type = mt, reply_to = rt, created_at = now\<rparr>;
          d1 = d\<lparr>messages_id_seq := messages_id_seq d + 1\<rparr>
      in if 20 < length mt \<or> \<not> pg_integer cid \<or> \<not> pg_integer uid then (None, d)
         else if cid \<in> set (map conv_id (conversations d)) \<and> uid \<in> set (map fst (users d))
            \<and> (case rt of
                  None \<Rightarrow> True
                | Some r \<Rightarrow> r \<in> set (map msg_id (messages d)) \<or> r = messages_id_seq d)
         then (Some row, d1\<lparr>messages := messages d @ [row]\<rparr>)
         else if (case rt of None \<Rightarrow> False | Some r \<Rightarrow> \<not> pg_integer r) then (None, d)
         else (None, d1))"

text \<open>Lines 276 to 279: \<^verbatim>\<open>UPDATE conversations SET updated_at = CURRENT_TIMESTAMP WHERE id = $1\<close>.\<close>

definition touch_conversation :: "int \<Rightarrow> conversation_id \<Rightarrow> database \<Rightarrow> database" where
  "touch_conversation now cid d =
     d\<lparr>conversations := map (\<lambda>c. if conv_id c = cid then c\<lparr>updated_at := now\<rparr> else c)
                            (conversations d)\<rparr>"

text \<open>Lines 291 to 297, the loop of \<^verbatim>\<open>handleMarkMessagesRead\<close>: one
  \<^verbatim>\<open>INSERT INTO message_reads ... ON CONFLICT (message_id, user_id) DO NOTHING\<close> for each id,
  each committed on its own. A row that is already there is skipped; a new row is refused
  when \<^verbatim>\<open>message_id\<close> or \<^verbatim>\<open>user_id\<close> references no row, and the loop ends there.\<close>

fun insert_reads :: "user_id \<Rightarrow> message_id list \<Rightarrow> database \<Rightarrow> completion \<times> database" where
  "insert_reads uid [] d = (Returned, d)"
| "insert_reads uid (m # ms) d =
     (if (m, uid) \<in> set (message_reads d) then insert_reads uid ms d
      else if m \<in> set (map msg_id (messages d)) \<and> uid \<in> set (map fst (users d))
      then insert_reads uid ms (d\<lparr>message_reads := message_reads d @ [(m, uid)]\<rparr>)
      else (Threw, d))"

subsection \<open>The server state\<close>

record user_info =
  userId :: user_id
  username :: string

text \<open>A socket that the middleware has admitted: its id, and the \<^verbatim>\<open>userId\<close> and \<^verbatim>\<open>username\<close>
  that lines 80 and 81 store on it.\<close>

record sock = user_info +
  sid :: socket_id

text \<open>The rooms of socket.io: the room of a socket's own id, which every connected socket
  is in, \<^verbatim>\<open>user_<id>\<close> and \<^verbatim>\<open>conversation_<id>\<close>.\<close>

datatype room = SocketRoom socket_id | UserRoom user_id | ConversationRoom conversation_id

record sender_info =
  sender_username :: string
  displayName :: string
  avatarUrl :: "string option"

record message_data =
  data_id :: message_id
  data_conversationId :: conversation_id
  senderId :: user_id
  sender :: sender_info
  data_content :: string
  data_messageType :: string
  data_replyTo :: "message_id option"
  createdAt :: int

datatype event =
    NewMessage message_data
  | MessagesRead user_id "message_id list" conversation_id
  | UserStatusChange user_id string
  | ErrorEvent string

text \<open>\<open>connectedUsers\<close>, \<open>userSockets\<close> and \<open>connectionAttempts\<close> are the three maps of the
  source. \<open>sockets\<close> holds the sockets of \<^verbatim>\<open>io.sockets.sockets\<close>, which maps each one's id to
  it; \<open>rooms\<close> is the adapter's rooms with their members in the order they joined. \<open>outbox\<close>
  records every \<^verbatim>\<open>emit\<close> of the server, oldest first, with the sockets it went to; \<open>closed\<close>
  records the sockets the server closed with \<^verbatim>\<open>disconnect(true)\<close>.\<close>

record server =
  connectedUsers :: "(user_id \<times> socket_id) list"
  userSockets :: "(socket_id \<times> user_info) list"
  connectionAttempts :: attempt_table
  sockets :: "sock list"
  rooms :: "(room \<times> socket_id list) list"
  store :: database
  outbox :: "(socket_id list \<times> event) list"
  closed :: "socket_id list"

text \<open>\<^verbatim>\<open>io.sockets.sockets.get(id)\<close>.\<close>

definition get_socket :: "server \<Rightarrow> socket_id \<Rightarrow> sock option" where
  "get_socket s i = find (\<lambda>k. sid k = i) (sockets s)"

definition room_members :: "server \<Rightarrow> room \<Rightarrow> socket_id list" where
  "room_members s r = (case map_of (rooms s) r of Some ms \<Rightarrow> ms | None \<Rightarrow> [])"

definition join :: "socket_id \<Rightarrow> room \<Rightarrow> server \<Rightarrow> server" where
  "join i r s =
     (if i \<in> set (room_members s r) then s
      else s\<lparr>rooms := AList.update r (room_members s r @ [i]) (rooms s)\<rparr>)"

definition leave_all :: "socket_id \<Rightarrow> server \<Rightarrow> server" where
  "leave_all i s = s\<lparr>rooms := map (\<lambda>(r, ms). (r, removeAll i ms)) (rooms s)\<rparr>"

text \<open>\<^verbatim>\<open>socket.emit\<close>, \<^verbatim>\<open>io.to(room).emit\<close> and \<^verbatim>\<open>socket.to(room).emit\<close>.\<close>

definition socket_emit :: "socket_id \<Rightarrow> event \<Rightarrow> server \<Rightarrow> server" where
  "socket_emit i ev s = s\<lparr>outbox := outbox s @ [([i], ev)]\<rparr>"

definition io_to_emit :: "room \<Rightarrow> event \<Rightarrow> server \<Rightarrow> server" where
  "io_to_emit r ev s = s\<lparr>outbox := outbox s @ [(room_members s r, ev)]\<rparr>"

definition socket_to_emit :: "socket_id \<Rightarrow> room \<Rightarrow> event \<Rightarrow> server \<Rightarrow> server" where
  "socket_to_emit i r ev s =
     s\<lparr>outbox := outbox s @ [(filter (\<lambda>j. j \<noteq> i) (room_members s r), ev)]\<rparr>"

text \<open>The events a socket has been sent, oldest first.\<close>

definition delivered :: "server \<Rightarrow> socket_id \<Rightarrow> event list" where
  "delivered s i = map snd (filter (\<lambda>e. i \<in> set (fst e)) (outbox s))"

subsection \<open>Presence\<close>

text \<open>\<^verbatim>\<open>broadcastUserStatus\<close>, lines 308 to 334.\<close>

definition broadcastUserStatus :: "user_id \<Rightarrow> string \<Rightarrow> server \<Rightarrow> server" where
  "broadcastUserStatus uid st s =
     fold (\<lambda>c s'. case map_of (connectedUsers s') c of
                     Some contactSocketId \<Rightarrow>
                       io_to_emit (SocketRoom contactSocketId) (UserStatusChange uid st) s'
                   | None \<Rightarrow> s')
       (accepted_contacts (store s) uid) s"

text \<open>The \<^verbatim>\<open>disconnect\<close> handler, lines 170 to 189. \<open>hasOtherConnections\<close> looks the user's id
  (a number) up among the values of \<open>connectedUsers\<close> (socket ids, strings).\<close>

definition on_disconnect :: "sock \<Rightarrow> server \<Rightarrow> server" where
  "on_disconnect socket s =
     (let s1 = s\<lparr>connectedUsers := AList.delete (userId socket) (connectedUsers s),
                 userSockets := AList.delete (sid socket) (userSockets s)\<rparr>;
          hasOtherConnections =
            array_includes (map (\<lambda>e. JString (snd e)) (connectedUsers s1))
              (JNumber (int (userId socket)))
      in if \<not> hasOtherConnections
         then broadcastUserStatus (userId socket) ''offline''
                (s1\<lparr>store := update_status (userId socket) ''offline'' (store s1)\<rparr>)
         else s1)"

text \<open>What socket.io does when a socket closes: it leaves its rooms, is removed from
  \<^verbatim>\<open>io.sockets.sockets\<close>, and its \<^verbatim>\<open>disconnect\<close> handler runs.\<close>

definition socket_close :: "sock \<Rightarrow> server \<Rightarrow> server" where
  "socket_close socket s =
     on_disconnect socket
       (leave_all (sid socket)
          (s\<lparr>sockets := filter (\<lambda>k. sid k \<noteq> sid socket) (sockets s)\<rparr>))"

text \<open>\<^verbatim>\<open>socket.disconnect(true)\<close>: the server closes the socket.\<close>

definition disconnect_true :: "sock \<Rightarrow> server \<Rightarrow> server" where
  "disconnect_true socket s = socket_close socket (s\<lparr>closed := closed s @ [sid socket]\<rparr>)"

subsection \<open>Admission\<close>

datatype admission =
    Admitted user_info
  | TokenRequired
  | TooManyAttempts
  | InvalidOrExpiredToken
  | AuthenticationFailed

text \<open>Lines 58 to 68. A socket id is a non-empty string, so \<^verbatim>\<open>existingSocketId &&\<close> is the test
  that the map has an entry.\<close>

definition evict_existing :: "user_id \<Rightarrow> socket_id \<Rightarrow> server \<Rightarrow> server" where
  "evict_existing uid i s =
     (case map_of (connectedUsers s) uid of
        None \<Rightarrow> s
      | Some existingSocketId \<Rightarrow>
          if existingSocketId \<noteq> i then
            let s1 = (case get_socket s existingSocketId of
                        Some existingSocket \<Rightarrow> disconnect_true existingSocket s
                      | None \<Rightarrow> s)
            in s1\<lparr>connectedUsers := AList.delete uid (connectedUsers s1),
                  userSockets := AList.delete existingSocketId (userSockets s1)\<rparr>
          else s)"

text \<open>The middleware, lines 15 to 87, for the socket with id \<open>i\<close> presenting \<open>token\<close> at time
  \<open>now\<close>. \<open>jwt_verify\<close> is \<^verbatim>\<open>jwt.verify\<close> with the server's secret, at the time of the attempt:
  the payload of a token it accepts, \<^const>\<open>None\<close> where it throws. An absent or empty token is
  falsy.\<close>

definition authenticate :: "(string \<Rightarrow> user_info option) \<Rightarrow> int \<Rightarrow> socket_id \<Rightarrow> string option
    \<Rightarrow> server \<Rightarrow> admission \<times> server" where
  "authenticate jwt_verify now i token s =
     (case token of
        None \<Rightarrow> (TokenRequired, s)
      | Some t \<Rightarrow>
          if t = [] then (TokenRequired, s)
          else
            (case jwt_verify t of
               None \<Rightarrow> (AuthenticationFailed, s)
             | Some decoded \<Rightarrow>
                 (case rate_limit now (userId decoded) (connectionAttempts s) of
                    (False, tbl) \<Rightarrow> (TooManyAttempts, s\<lparr>connectionAttempts := tbl\<rparr>)
                  | (True, tbl) \<Rightarrow>
                      let s2 = evict_existing (userId decoded) i (s\<lparr>connectionAttempts := tbl\<rparr>)
                      in if session_query (store s2) now (userId decoded) t = []
                         then (InvalidOrExpiredToken, s2)
                         else (Admitted decoded, s2))))"

text \<open>The \<^verbatim>\<open>connection\<close> handler, lines 89 to 195, for an admitted socket. socket.io has put
  the socket into \<^verbatim>\<open>io.sockets.sockets\<close> and into the room of its own id before the handler
  runs.\<close>

definition connection :: "sock \<Rightarrow> server \<Rightarrow> server" where
  "connection socket s =
     (let s0 = join (sid socket) (SocketRoom (sid socket))
                 (s\<lparr>sockets := filter (\<lambda>k. sid k \<noteq> sid socket) (sockets s) @ [socket]\<rparr>);
          s1 = s0\<lparr>connectionAttempts := reset_attempts (userId socket) (connectionAttempts s0)\<rparr>;
          s2 = s1\<lparr>connectedUsers := AList.update (userId socket) (sid socket) (connectedUsers s1),
                  userSockets := AList.update (sid socket)
                     \<lparr>userId = userId socket, username = username socket\<rparr> (userSockets s1)\<rparr>;
          s3 = s2\<lparr>store := update_status (userId socket) ''online'' (store s2)\<rparr>;
          s4 = broadcastUserStatus (userId socket) ''online'' s3;
          s5 = join (sid socket) (UserRoom (userId socket)) s4
      in fold (\<lambda>c. join (sid socket) (ConversationRoom c))
           (user_conversations (store s5) (userId socket)) s5)"

subsection \<open>Messages and read receipts\<close>

record channel_data =
  conversationId :: "conversation_id option"

record send_data = channel_data +
  content :: "string option"
  messageType :: "string option"
  replyTo :: "message_id option"

record read_data = channel_data +
  messageIds :: "message_id list option"

text \<open>\<^verbatim>\<open>handleSendMessage\<close>, lines 218 to 280. An absent, zero or empty field is falsy;
  \<^verbatim>\<open>messageType\<close> defaults to \<^verbatim>\<open>'text'\<close>. The conversation id of an event is a non-negative
  whole number, of any size.\<close>

definition handleSendMessage :: "int \<Rightarrow> sock \<Rightarrow> send_data \<Rightarrow> server \<Rightarrow> completion \<times> server" where
  "handleSendMessage now socket d s =
     (let required = (Returned, socket_emit (sid socket)
                        (ErrorEvent ''Conversation ID and content are required'') s)
      in case conversationId d of
           None \<Rightarrow> required
         | Some cid \<Rightarrow>
             if cid = 0 then required
             else
               (case content d of
                  None \<Rightarrow> required
                | Some c \<Rightarrow>
                    if c = [] then required
                    else
                      (case accessCheck (store s) cid (userId socket) of
                         None \<Rightarrow> (Threw, s)
                       | Some [] \<Rightarrow>
                           (Returned, socket_emit (sid socket)
                              (ErrorEvent ''Access denied to this conversation'') s)
                       | Some (r # rs) \<Rightarrow>
                           (case insert_message now cid (userId socket) c
                                   (case messageType d of None \<Rightarrow> ''text'' | Some t \<Rightarrow> t)
                                   (replyTo d) (store s) of
                              (None, d1) \<Rightarrow> (Threw, s\<lparr>store := d1\<rparr>)
                            | (Some message, d1) \<Rightarrow>
                                (case map_of (users d1) (userId socket) of
                                   None \<Rightarrow> (Threw, s\<lparr>store := d1\<rparr>)
                                 | Some u \<Rightarrow>
                                     let messageData =
                                           \<lparr>data_id = msg_id message,
                                            data_conversationId = cid,
                                            senderId = userId socket,
                                            sender = \<lparr>sender_username = row_username u,
                                                      displayName = display_name u,
                                                      avatarUrl = avatar_url u\<rparr>,
                                            data_content = c,
                                            data_messageType = message_type message,
                                            data_replyTo = replyTo d,
                                            createdAt = created_at message\<rparr>;
                                         s2 = io_to_emit (ConversationRoom cid)
                                                (NewMessage messageData) (s\<lparr>store := d1\<rparr>)
                                     in (Returned,
                                         s2\<lparr>store := touch_conversation now cid (store s2)\<rparr>))))))"

text \<open>The \<^verbatim>\<open>send_message\<close> listener, lines 125 to 132.\<close>

definition on_send_message :: "int \<Rightarrow> sock \<Rightarrow> send_data \<Rightarrow> server \<Rightarrow> server" where
  "on_send_message now socket d s =
     (case handleSendMessage now socket d s of
        (Returned, s') \<Rightarrow> s'
      | (Threw, s') \<Rightarrow> socket_emit (sid socket) (ErrorEvent ''Failed to send message'') s')"

text \<open>\<^verbatim>\<open>handleMarkMessagesRead\<close>, lines 283 to 305. \<open>messageIds\<close> is \<^const>\<open>None\<close> when the field is
  absent or not an array.\<close>

definition handleMarkMessagesRead :: "sock \<Rightarrow> read_data \<Rightarrow> server \<Rightarrow> completion \<times> server" where
  "handleMarkMessagesRead socket d s =
     (case conversationId d of
        None \<Rightarrow> (Returned, s)
      | Some cid \<Rightarrow>
          if cid = 0 then (Returned, s)
          else
            (case messageIds d of
               None \<Rightarrow> (Returned, s)
             | Some ids \<Rightarrow>
                 (case insert_reads (userId socket) ids (store s) of
                    (Threw, d1) \<Rightarrow> (Threw, s\<lparr>store := d1\<rparr>)
                  | (Returned, d1) \<Rightarrow>
                      (Returned,
                       socket_to_emit (sid socket) (ConversationRoom cid)
                         (MessagesRead (userId socket) ids cid) (s\<lparr>store := d1\<rparr>)))))"

text \<open>The \<^verbatim>\<open>mark_messages_read\<close> listener, lines 151 to 157: what the handler throws is
  logged and goes no further.\<close>

definition on_mark_messages_read :: "sock \<Rightarrow> read_data \<Rightarrow> server \<Rightarrow> server" where
  "on_mark_messages_read socket d s = snd (handleMarkMessagesRead socket d s)"

subsection \<open>Membership, read off the tables\<close>

text \<open>The user is a participant of conversation \<open>cid\<close> (a row of
  \<^verbatim>\<open>conversation_participants\<close>), or a member of the group that conversation \<open>cid\<close> belongs to (a
  row of \<^verbatim>\<open>group_members\<close> for the conversation's \<^verbatim>\<open>group_id\<close>). The ids of rows are \<^verbatim>\<open>INTEGER\<close>:
  a number beyond it is the id of no conversation and of no user.\<close>

definition participant_or_member :: "database \<Rightarrow> conversation_id \<Rightarrow> user_id \<Rightarrow> bool" where
  "participant_or_member d cid uid =
     (pg_integer cid \<and> pg_integer uid \<and>
      (\<exists>c\<in>set (conversations d). conv_id c = cid
        \<and> ((cid, uid) \<in> set (conversation_participants d)
           \<or> (case group_id c of
                 Some g \<Rightarrow> (g, uid) \<in> set (group_members d)
               | None \<Rightarrow> False))))"

subsection \<open>What a status broadcast emits\<close>

text \<open>The emits of \<^const>\<open>broadcastUserStatus\<close>, in one piece: one for every accepted contact
  that \<open>connectedUsers\<close> has a socket for, to the room of that socket.\<close>

definition status_events :: "user_id \<Rightarrow> string \<Rightarrow> server \<Rightarrow> (socket_id list \<times> event) list" where
  "status_events uid st s =
     map (\<lambda>i. (room_members s (SocketRoom i), UserStatusChange uid st))
       (List.map_filter (map_of (connectedUsers s)) (accepted_contacts (store s) uid))"

subsection \<open>Example states\<close>

text \<open>Three users; alice and bob are accepted contacts and the two participants of
  conversation 42, carol is neither. Every user has one session that has not expired.
  \<open>jwt0\<close> accepts one token of each user, and an older token of alice that has no session.\<close>

definition jwt0 :: "string \<Rightarrow> user_info option" where
  "jwt0 t = (if t = ''alice-token'' \<or> t = ''alice-old-token''
               then Some \<lparr>userId = 1, username = ''alice''\<rparr>
             else if t = ''bob-token'' then Some \<lparr>userId = 2, username = ''bob''\<rparr>
             else if t = ''carol-token'' then Some \<lparr>userId = 3, username = ''carol''\<rparr>
             else None)"

definition db0 :: database where
  "db0 = \<lparr>users = [(1, \<lparr>row_username = ''alice'', display_name = ''Alice'',
                         avatar_url = None, status = ''offline''\<rparr>),
                   (2, \<lparr>row_username = ''bob'', display_name = ''Bob'',
                         avatar_url = None, status = ''offline''\<rparr>),
                   (3, \<lparr>row_username = ''carol'', display_name = ''Carol'',
                         avatar_url = None, status = ''offline''\<rparr>)],
          user_sessions =
            [\<lparr>session_user_id = 1, token_hash = ''alice-token'', expires_at = 900000000\<rparr>,
             \<lparr>session_user_id = 2, token_hash = ''bob-token'', expires_at = 900000000\<rparr>,
             \<lparr>session_user_id = 3, token_hash = ''carol-token'', expires_at = 900000000\<rparr>],
          contacts = [\<lparr>contact_user_id = 1, contact_id = 2, contact_status = ''accepted''\<rparr>],
          conversations = [\<lparr>conv_id = 42, group_id = None, updated_at = 0\<rparr>],
          conversation_participants = [(42, 1), (42, 2)],
          group_members = [],
          messages = [], messages_id_seq = 1, message_reads = []\<rparr>"

definition server0 :: server where
  "server0 = \<lparr>connectedUsers = [], userSockets = [], connectionAttempts = [], sockets = [],
              rooms = [], store = db0, outbox = [], closed = []\<rparr>"

definition alice :: "socket_id \<Rightarrow> sock" where
  "alice i = \<lparr>userId = 1, username = ''alice'', sid = i\<rparr>"

definition bob :: "socket_id \<Rightarrow> sock" where
  "bob i = \<lparr>userId = 2, username = ''bob'', sid = i\<rparr>"

definition carol :: "socket_id \<Rightarrow> sock" where
  "carol i = \<lparr>userId = 3, username = ''carol'', sid = i\<rparr>"

text \<open>The state after the middleware has run for a socket of alice.\<close>

definition attempt :: "int \<Rightarrow> socket_id \<Rightarrow> server \<Rightarrow> server" where
  "attempt n i s = snd (authenticate jwt0 n i (Some ''alice-token'') s)"

text \<open>Four attempts of alice a millisecond apart, none of which has reached its
  \<^verbatim>\<open>connection\<close> handler yet.\<close>

definition flood1 :: server where
  "flood1 = attempt 1000000 ''A'' server0"

definition flood2 :: server where
  "flood2 = attempt 1000001 ''B'' flood1"

definition flood3 :: server where
  "flood3 = attempt 1000002 ''C'' flood2"

definition flood4 :: server where
  "flood4 = attempt 1000003 ''D'' flood3"

text \<open>Three attempts of alice a millisecond apart, each connected before the next.\<close>

definition reconnect1 :: server where
  "reconnect1 = connection (alice ''A'') (attempt 1000000 ''A'' server0)"

definition reconnect2 :: server where
  "reconnect2 = connection (alice ''B'') (attempt 1000001 ''B'' reconnect1)"

definition reconnect3 :: server where
  "reconnect3 = connection (alice ''C'') (attempt 1000002 ''C'' reconnect2)"

text \<open>bob is connected on socket \<open>Z\<close>.\<close>

definition bob_online :: server where
  "bob_online =
     connection (bob ''Z'') (snd (authenticate jwt0 999000 ''Z'' (Some ''bob-token'') server0))"

text \<open>Two sockets of alice, \<open>A\<close> and \<open>B\<close>, open within ten milliseconds. The middleware awaits
  the store at line 71, and socket.io emits \<^verbatim>\<open>connection\<close> in a later tick than the
  middleware's \<^verbatim>\<open>next()\<close>, so the middleware of \<open>B\<close> can run before the \<^verbatim>\<open>connection\<close> handler of
  \<open>A\<close>: the steps are middleware \<open>A\<close>, middleware \<open>B\<close>, connection \<open>A\<close>, connection \<open>B\<close>.\<close>

definition race1 :: server where
  "race1 = attempt 1000000 ''A'' bob_online"

definition race2 :: server where
  "race2 = attempt 1000010 ''B'' race1"

definition race3 :: server where
  "race3 = connection (alice ''A'') race2"

definition race_state :: server where
  "race_state = connection (alice ''B'') race3"

text \<open>alice is connected on socket \<open>A\<close>, and bob on \<open>Z\<close>.\<close>

definition alice_online :: server where
  "alice_online = connection (alice ''A'') (attempt 1000000 ''A'' bob_online)"

text \<open>carol is connected too, on socket \<open>C\<close>; then alice sends \<open>hi\<close> to conversation 42,
  which becomes message 1.\<close>

definition carol_online :: server where
  "carol_online =
     connection (carol ''C'') (snd (authenticate jwt0 1000020 ''C'' (Some ''carol-token'') alice_online))"

definition hi :: send_data where
  "hi = \<lparr>conversationId = Some 42, content = Some ''hi'', messageType = None, replyTo = None\<rparr>"

definition chat_state :: server where
  "chat_state = on_send_message 1000100 (alice ''A'') hi carol_online"

text \<open>Read receipts for conversation 42: of message 1, of a message 99 that does not exist,
  and of both.\<close>

definition read1 :: read_data where
  "read1 = \<lparr>conversationId = Some 42, messageIds = Some [1]\<rparr>"

definition read99 :: read_data where
  "read99 = \<lparr>conversationId = Some 42, messageIds = Some [99]\<rparr>"

definition read1_99 :: read_data where
  "read1_99 = \<lparr>conversationId = Some 42, messageIds = Some [1, 99]\<rparr>"


section \<open>Properties\<close>

subsection \<open>Auxiliary facts\<close>

lemma number_not_among_strings [simp]:
  "array_includes (map (\<lambda>e. JString (f e)) xs) (JNumber n) = False"
  by (induction xs) (simp_all add: array_includes_def)

lemma fold_emit:
  "fold (\<lambda>c s'. case map_of (connectedUsers s') c of
                   Some k \<Rightarrow> io_to_emit (SocketRoom k) ev s'
                 | None \<Rightarrow> s') cs s
   = s\<lparr>outbox := outbox s @ map (\<lambda>i. (room_members s (SocketRoom i), ev))
                               (List.map_filter (map_of (connectedUsers s)) cs)\<rparr>"
  by (induction cs arbitrary: s)
     (simp_all add: io_to_emit_def room_members_def map_filter_simps split: option.splits)

lemma broadcastUserStatus_eq:
  "broadcastUserStatus uid st s = s\<lparr>outbox := outbox s @ status_events uid st s\<rparr>"
  by (simp add: broadcastUserStatus_def status_events_def fold_emit)

lemma on_disconnect_eq:
  "on_disconnect socket s =
     (let s1 = s\<lparr>connectedUsers := AList.delete (userId socket) (connectedUsers s),
                 userSockets := AList.delete (sid socket) (userSockets s),
                 store := update_status (userId socket) ''offline'' (store s)\<rparr>
      in s1\<lparr>outbox := outbox s @ status_events (userId socket) ''offline'' s1\<rparr>)"
  by (simp add: on_disconnect_def broadcastUserStatus_eq Let_def)

lemma on_disconnect_fields [simp]:
  "connectionAttempts (on_disconnect socket s) = connectionAttempts s"
  "sockets (on_disconnect socket s) = sockets s"
  "rooms (on_disconnect socket s) = rooms s"
  "closed (on_disconnect socket s) = closed s"
  "connectedUsers (on_disconnect socket s) = AList.delete (userId socket) (connectedUsers s)"
  "userSockets (on_disconnect socket s) = AList.delete (sid socket) (userSockets s)"
  "store (on_disconnect socket s) = update_status (userId socket) ''offline'' (store s)"
  by (simp_all add: on_disconnect_eq Let_def)

lemma disconnect_true_fields [simp]:
  "connectionAttempts (disconnect_true socket s) = connectionAttempts s"
  "sockets (disconnect_true socket s) = filter (\<lambda>k. sid k \<noteq> sid socket) (sockets s)"
  "closed (disconnect_true socket s) = closed s @ [sid socket]"
  "connectedUsers (disconnect_true socket s) = AList.delete (userId socket) (connectedUsers s)"
  "userSockets (disconnect_true socket s) = AList.delete (sid socket) (userSockets s)"
  "store (disconnect_true socket s) = update_status (userId socket) ''offline'' (store s)"
  by (simp_all add: disconnect_true_def socket_close_def leave_all_def)

lemma evict_existing_attempts [simp]:
  "connectionAttempts (evict_existing uid i s) = connectionAttempts s"
  by (simp add: evict_existing_def Let_def split: option.splits)

lemma rl_blocked:
  "blocked (attempts_of tbl uid) \<Longrightarrow> now - lastAttempt (attempts_of tbl uid) < BLOCK_DURATION
   \<Longrightarrow> rate_limit now uid tbl = (False, tbl)"
  by (simp add: rate_limit_def)

lemma attempts_of_update [simp]: "attempts_of (AList.update uid a tbl) uid = a"
  by (simp add: attempts_of_def update_conv')

lemma rl_expired:
  "blocked (attempts_of tbl uid) \<Longrightarrow> BLOCK_DURATION \<le> now - lastAttempt (attempts_of tbl uid)
   \<Longrightarrow> rate_limit now uid tbl
       = (True, AList.update uid \<lparr>count = 1, lastAttempt = now, blocked = False\<rparr> tbl)"
  by (cases "attempts_of tbl uid") (simp add: rate_limit_def BLOCK_DURATION_def ATTEMPT_WINDOW_def)

lemma rl_touched:
  "\<not> (blocked (attempts_of tbl uid) \<and> now - lastAttempt (attempts_of tbl uid) < BLOCK_DURATION)
   \<Longrightarrow> lastAttempt (attempts_of (snd (rate_limit now uid tbl)) uid) = now
       \<and> map_of (snd (rate_limit now uid tbl)) uid \<noteq> None"
  by (auto simp add: rate_limit_def Let_def update_conv')

lemma rl_next:
  assumes "blocked (attempts_of tbl uid) \<longrightarrow> now - lastAttempt (attempts_of tbl uid) < BLOCK_DURATION"
    and "\<not> blocked (attempts_of tbl uid) \<longrightarrow>
           now - lastAttempt (attempts_of tbl uid) < ATTEMPT_WINDOW \<and> k \<le> count (attempts_of tbl uid)"
  shows "(blocked (attempts_of (snd (rate_limit now uid tbl)) uid) \<and> \<not> fst (rate_limit now uid tbl)
            \<and> (lastAttempt (attempts_of (snd (rate_limit now uid tbl)) uid) = now
               \<or> lastAttempt (attempts_of (snd (rate_limit now uid tbl)) uid) = lastAttempt (attempts_of tbl uid)))
       \<or> (\<not> blocked (attempts_of (snd (rate_limit now uid tbl)) uid) \<and> fst (rate_limit now uid tbl)
            \<and> lastAttempt (attempts_of (snd (rate_limit now uid tbl)) uid) = now
            \<and> k + 1 \<le> count (attempts_of (snd (rate_limit now uid tbl)) uid)
            \<and> k + 1 \<le> MAX_ATTEMPTS)"
  using assms by (auto simp add: rate_limit_def Let_def)

lemma rl_first:
  assumes "\<not> blocked (attempts_of tbl uid)"
  shows "lastAttempt (attempts_of (snd (rate_limit now uid tbl)) uid) = now
       \<and> (blocked (attempts_of (snd (rate_limit now uid tbl)) uid)
          \<or> 1 \<le> count (attempts_of (snd (rate_limit now uid tbl)) uid))"
  using assms by (auto simp add: rate_limit_def Let_def)

lemma authenticate_decoded:
  assumes "jwt_verify t = Some decoded" and "t \<noteq> []"
  shows "connectionAttempts (snd (authenticate jwt_verify now i (Some t) s))
           = snd (rate_limit now (userId decoded) (connectionAttempts s))"
    and "(fst (authenticate jwt_verify now i (Some t) s) = TooManyAttempts)
           = (\<not> fst (rate_limit now (userId decoded) (connectionAttempts s)))"
  using assms
  by (auto simp add: authenticate_def Let_def split: prod.splits bool.splits)

lemma left_join_alt:
  "left_join xs ys cond =
     concat (map (\<lambda>x. if filter (cond x) ys = [] then [(x, None)]
                       else map (\<lambda>y'. (x, Some y')) (filter (cond x) ys)) xs)"
  unfolding left_join_def
  by (rule arg_cong [where f = concat], rule map_cong) (simp_all split: list.splits)

lemma left_join_Some:
  "(x, Some y) \<in> set (left_join xs ys cond) \<longleftrightarrow> x \<in> set xs \<and> y \<in> set ys \<and> cond x y"
  by (auto simp add: left_join_alt filter_empty_conv split: if_splits)

lemma left_join_None:
  "(x, None) \<in> set (left_join xs ys cond) \<longleftrightarrow> x \<in> set xs \<and> (\<forall>y\<in>set ys. \<not> cond x y)"
  by (auto simp add: left_join_alt filter_empty_conv split: if_splits)

lemma left_join_fst:
  "(x, y) \<in> set (left_join xs ys cond) \<Longrightarrow> x \<in> set xs"
  by (auto simp add: left_join_alt split: if_splits)

lemma left_join_total:
  assumes that: "x \<in> set xs"
  shows "\<exists>y. (x, y) \<in> set (left_join xs ys cond)"
proof (cases "\<forall>y\<in>set ys. \<not> cond x y")
  case True
  with that have "(x, None) \<in> set (left_join xs ys cond)" by (simp add: left_join_None)
  then show ?thesis ..
next
  case False
  then obtain y where "y \<in> set ys" "cond x y" by auto
  with that have "(x, Some y) \<in> set (left_join xs ys cond)" by (simp add: left_join_Some)
  then show ?thesis ..
qed

lemma session_query_nonempty:
  assumes "uid \<in> fst ` set (users d)"
    and "r \<in> set (user_sessions d)" "session_user_id r = uid" "token_hash r = t" "now < expires_at r"
  shows "session_query d now uid t \<noteq> []"
proof -
  from assms(1) obtain ur where u: "(uid, ur) \<in> set (users d)" by auto
  with assms have "((uid, ur), Some r)
      \<in> set (left_join (users d) (user_sessions d) (\<lambda>u s. fst u = session_user_id s))"
    by (simp add: left_join_Some)
  with assms have "((uid, ur), Some r) \<in> set (session_query d now uid t)"
    by (simp add: session_query_def)
  then show ?thesis by auto
qed

lemma update_status_frame [simp]:
  "user_sessions (update_status uid st d) = user_sessions d"
  "map fst (users (update_status uid st d)) = map fst (users d)"
  "contacts (update_status uid st d) = contacts d"
  "conversations (update_status uid st d) = conversations d"
  "conversation_participants (update_status uid st d) = conversation_participants d"
  "group_members (update_status uid st d) = group_members d"
  "messages (update_status uid st d) = messages d"
  "messages_id_seq (update_status uid st d) = messages_id_seq d"
  "message_reads (update_status uid st d) = message_reads d"
  by (simp_all add: update_status_def comp_def case_prod_unfold)

lemma evict_existing_store:
  "user_sessions (store (evict_existing uid i s)) = user_sessions (store s)"
  "map fst (users (store (evict_existing uid i s))) = map fst (users (store s))"
  by (simp_all add: evict_existing_def Let_def split: option.splits)

lemma join_frame [simp]:
  "connectionAttempts (join i r s) = connectionAttempts s"
  "connectedUsers (join i r s) = connectedUsers s"
  "userSockets (join i r s) = userSockets s"
  "sockets (join i r s) = sockets s"
  "store (join i r s) = store s"
  "outbox (join i r s) = outbox s"
  "closed (join i r s) = closed s"
  by (simp_all add: join_def)

lemma fold_join_frame [simp]:
  "connectionAttempts (fold (\<lambda>c. join i (f c)) cs s) = connectionAttempts s"
  "connectedUsers (fold (\<lambda>c. join i (f c)) cs s) = connectedUsers s"
  "userSockets (fold (\<lambda>c. join i (f c)) cs s) = userSockets s"
  "sockets (fold (\<lambda>c. join i (f c)) cs s) = sockets s"
  "store (fold (\<lambda>c. join i (f c)) cs s) = store s"
  "outbox (fold (\<lambda>c. join i (f c)) cs s) = outbox s"
  "closed (fold (\<lambda>c. join i (f c)) cs s) = closed s"
  by (induction cs arbitrary: s; simp)+

lemma connection_attempts [simp]:
  "connectionAttempts (connection socket s) = reset_attempts (userId socket) (connectionAttempts s)"
  by (simp add: connection_def Let_def broadcastUserStatus_eq)

lemma authenticate_admitted:
  assumes "jwt_verify t = Some decoded" and "t \<noteq> []"
    and "fst (rate_limit now (userId decoded) (connectionAttempts s))"
    and "userId decoded \<in> fst ` set (users (store s))"
    and "r \<in> set (user_sessions (store s))" "session_user_id r = userId decoded"
        "token_hash r = t" "now < expires_at r"
  shows "fst (authenticate jwt_verify now i (Some t) s) = Admitted decoded"
proof -
  obtain tbl where rl: "rate_limit now (userId decoded) (connectionAttempts s) = (True, tbl)"
    using assms(3) by (cases "rate_limit now (userId decoded) (connectionAttempts s)") auto
  let ?s2 = "evict_existing (userId decoded) i (s\<lparr>connectionAttempts := tbl\<rparr>)"
  have "set (map fst (users (store ?s2))) = set (map fst (users (store s)))"
    by (simp only: evict_existing_store) simp
  then have "userId decoded \<in> fst ` set (users (store ?s2))"
    using assms(4) by simp
  moreover have "r \<in> set (user_sessions (store ?s2))"
    using assms(5) by (simp add: evict_existing_store)
  ultimately have "session_query (store ?s2) now (userId decoded) t \<noteq> []"
    using assms(6-8) by (rule session_query_nonempty)
  then show ?thesis
    using assms(1,2) rl by (simp add: authenticate_def Let_def)
qed

lemma find_filter_none [simp]: "find (\<lambda>k. f k = i) (filter (\<lambda>k. f k \<noteq> i) xs) = None"
  by (induction xs) simp_all

lemma evict_existing_evicts:
  assumes "map_of (connectedUsers s) uid = Some e" and "e \<noteq> i"
  shows "map_of (connectedUsers (evict_existing uid i s)) uid = None"
    and "map_of (userSockets (evict_existing uid i s)) e = None"
    and "get_socket (evict_existing uid i s) e = None"
    and "get_socket s e \<noteq> None \<Longrightarrow> e \<in> set (closed (evict_existing uid i s))"
  using assms
  by (auto simp add: evict_existing_def Let_def get_socket_def delete_conv' find_None_iff
           split: option.splits dest: find_Some_iff [THEN iffD1])

lemma access_rows_iff:
  "access_rows d cid uid \<noteq> [] \<longleftrightarrow>
     (\<exists>c\<in>set (conversations d). conv_id c = cid
        \<and> ((cid, uid) \<in> set (conversation_participants d)
           \<or> (case group_id c of
                 Some g \<Rightarrow> (g, uid) \<in> set (group_members d)
               | None \<Rightarrow> False)))"
  (is "?rows \<longleftrightarrow> ?member")
proof
  assume ?rows
  then obtain c cp gm where row: "((c, cp), gm) \<in> set (conversation_joins d)"
      and cid: "conv_id c = cid" and m: "member_row uid cp gm"
    by (fastforce simp add: access_rows_def filter_empty_conv)
  from row have inner: "(c, cp) \<in> set (left_join (conversations d) (conversation_participants d)
                                    (\<lambda>c cp. conv_id c = fst cp))"
    unfolding conversation_joins_def by (rule left_join_fst)
  then have c: "c \<in> set (conversations d)" by (rule left_join_fst)
  from m consider p where "cp = Some p" "snd p = uid" | g where "gm = Some g" "snd g = uid"
    by (auto simp add: member_row_def)
  then show ?member
  proof cases
    case 1
    with inner cid have "(cid, uid) \<in> set (conversation_participants d)"
      by (cases p) (auto simp add: left_join_Some)
    with c cid show ?thesis by auto
  next
    case 2
    with row have "g \<in> set (group_members d)" "group_id c = Some (fst g)"
      by (auto simp add: conversation_joins_def left_join_Some)
    with 2 c cid show ?thesis
      by (cases g) auto
  qed
next
  assume ?member
  then obtain c where c: "c \<in> set (conversations d)" "conv_id c = cid"
      and m: "(cid, uid) \<in> set (conversation_participants d)
              \<or> (\<exists>g. group_id c = Some g \<and> (g, uid) \<in> set (group_members d))"
    by (auto split: option.splits)
  let ?inner = "left_join (conversations d) (conversation_participants d) (\<lambda>c cp. conv_id c = fst cp)"
  from m have "\<exists>cp gm. ((c, cp), gm) \<in> set (conversation_joins d) \<and> member_row uid cp gm"
  proof
    assume "(cid, uid) \<in> set (conversation_participants d)"
    with c have "(c, Some (cid, uid)) \<in> set ?inner" by (simp add: left_join_Some)
    then obtain gm where "((c, Some (cid, uid)), gm) \<in> set (conversation_joins d)"
      unfolding conversation_joins_def using left_join_total by fastforce
    then show ?thesis by (auto simp add: member_row_def)
  next
    assume "\<exists>g. group_id c = Some g \<and> (g, uid) \<in> set (group_members d)"
    then obtain g where g: "group_id c = Some g" "(g, uid) \<in> set (group_members d)" by auto
    from c obtain cp where "(c, cp) \<in> set ?inner" using left_join_total by fastforce
    with g have "((c, cp), Some (g, uid)) \<in> set (conversation_joins d)"
      by (simp add: conversation_joins_def left_join_Some)
    then show ?thesis by (auto simp add: member_row_def)
  qed
  then obtain cp gm where "((c, cp), gm) \<in> set (conversation_joins d)" "member_row uid cp gm"
    by auto
  with c show ?rows
    by (auto simp add: access_rows_def filter_empty_conv intro!: bexI [of _ "((c, cp), gm)"])
qed

lemma accessCheck_member:
  "(\<exists>r rs. accessCheck d cid uid = Some (r # rs)) \<longleftrightarrow> participant_or_member d cid uid"
  using access_rows_iff [of d cid uid]
  by (auto simp add: accessCheck_def participant_or_member_def neq_Nil_conv)



lemma insert_reads_frame:
  "snd (insert_reads uid ids d) = d\<lparr>message_reads := message_reads (snd (insert_reads uid ids d))\<rparr>"
proof (induction ids arbitrary: d)
  case Nil
  show ?case by simp
next
  case (Cons m ids)
  show ?case
    using Cons.IH [of d] Cons.IH [of "d\<lparr>message_reads := message_reads d @ [(m, uid)]\<rparr>"]
    by auto
qed

lemma insert_reads_tables [simp]:
  "messages (snd (insert_reads uid ids d)) = messages d"
  "users (snd (insert_reads uid ids d)) = users d"
  by (subst insert_reads_frame, simp)+

lemma insert_reads_returns:
  "set ids \<subseteq> set (map msg_id (messages d)) \<Longrightarrow> uid \<in> set (map fst (users d))
   \<Longrightarrow> fst (insert_reads uid ids d) = Returned"
  by (induction ids arbitrary: d) simp_all

lemma insert_reads_rows:
  "set ids \<subseteq> set (map msg_id (messages d)) \<Longrightarrow> uid \<in> set (map fst (users d))
   \<Longrightarrow> set (message_reads (snd (insert_reads uid ids d)))
       = set (message_reads d) \<union> (\<lambda>m. (m, uid)) ` set ids"
  by (induction ids arbitrary: d) auto

lemma insert_reads_distinct:
  "distinct (message_reads d) \<Longrightarrow> distinct (message_reads (snd (insert_reads uid ids d)))"
  by (induction ids arbitrary: d) simp_all

lemma insert_reads_again:
  "\<forall>m\<in>set ids. (m, uid) \<in> set (message_reads d) \<Longrightarrow> insert_reads uid ids d = (Returned, d)"
  by (induction ids) simp_all

lemma count_list_distinct: "distinct xs \<Longrightarrow> x \<in> set xs \<Longrightarrow> count_list xs x = 1"
  by (induction xs) auto

lemma mark_read_returns:
  assumes "conversationId d = Some cid" "cid \<noteq> 0" "messageIds d = Some ids"
    and "set ids \<subseteq> set (map msg_id (messages (store s)))"
    and "userId socket \<in> set (map fst (users (store s)))"
  shows "handleMarkMessagesRead socket d s
       = (Returned,
          s\<lparr>store := snd (insert_reads (userId socket) ids (store s)),
            outbox := outbox s @ [(filter (\<lambda>j. j \<noteq> sid socket) (room_members s (ConversationRoom cid)),
                                    MessagesRead (userId socket) ids cid)]\<rparr>)"
  using assms insert_reads_returns [OF assms(4,5)]
  by (cases "insert_reads (userId socket) ids (store s)")
     (simp add: handleMarkMessagesRead_def socket_to_emit_def room_members_def)

subsection \<open>Admission and the rate limiter\<close>

text \<open>
  C3, as the code has it. A user whose record is not blocked makes four attempts with a
  token that decodes, each less than \<^const>\<open>ATTEMPT_WINDOW\<close> after the ones before it, and
  between two of them nothing changes the user's record (no \<^verbatim>\<open>connection\<close> handler of the
  user has run: lines 91 to 97 would clear the count). Then the fourth attempt is rejected
  as rate-limited and the record is blocked. Once \<^const>\<open>BLOCK_DURATION\<close> has passed since the
  record's \<open>lastAttempt\<close>, an attempt of the user with a session that has not expired is
  admitted; it leaves the record unblocked with a count of 1, and its \<^verbatim>\<open>connection\<close> handler
  leaves a count of 0.
\<close>

theorem C3_blocked_after_four_attempts:
  assumes tok: "jwt_verify t = Some decoded" "t \<noteq> []" "u = userId decoded"
    and fresh: "\<not> blocked (attempts_of (connectionAttempts s0) u)"
    and w: "n2 - n1 < ATTEMPT_WINDOW" "n3 - n1 < ATTEMPT_WINDOW" "n3 - n2 < ATTEMPT_WINDOW"
           "n4 - n1 < ATTEMPT_WINDOW" "n4 - n2 < ATTEMPT_WINDOW" "n4 - n3 < ATTEMPT_WINDOW"
    and k1: "attempts_of (connectionAttempts s1) u
               = attempts_of (connectionAttempts (snd (authenticate jwt_verify n1 i1 (Some t) s0))) u"
    and k2: "attempts_of (connectionAttempts s2) u
               = attempts_of (connectionAttempts (snd (authenticate jwt_verify n2 i2 (Some t) s1))) u"
    and k3: "attempts_of (connectionAttempts s3) u
               = attempts_of (connectionAttempts (snd (authenticate jwt_verify n3 i3 (Some t) s2))) u"
    and r4: "r4 = authenticate jwt_verify n4 i4 (Some t) s3"
    and k4: "attempts_of (connectionAttempts s4) u = attempts_of (connectionAttempts (snd r4)) u"
    and cool: "BLOCK_DURATION \<le> n5 - lastAttempt (attempts_of (connectionAttempts s4) u)"
    and valid: "u \<in> fst ` set (users (store s4))"
               "\<exists>r\<in>set (user_sessions (store s4)).
                  session_user_id r = u \<and> token_hash r = t \<and> n5 < expires_at r"
    and r5: "r5 = authenticate jwt_verify n5 i5 (Some t) s4"
  shows "fst r4 = TooManyAttempts
       \<and> blocked (attempts_of (connectionAttempts (snd r4)) u)
       \<and> fst r5 = Admitted decoded
       \<and> attempts_of (connectionAttempts (snd r5)) u
           = \<lparr>count = 1, lastAttempt = n5, blocked = False\<rparr>
       \<and> attempts_of (connectionAttempts
             (connection \<lparr>userId = u, username = username decoded, sid = i5\<rparr> (snd r5))) u
           = \<lparr>count = 0, lastAttempt = n5, blocked = False\<rparr>"
proof -
  let ?rec = "\<lambda>s. attempts_of (connectionAttempts s) u"
  have A: "connectionAttempts (snd (authenticate jwt_verify n i (Some t) s))
             = snd (rate_limit n u (connectionAttempts s))" for n i s
    using authenticate_decoded(1) [of jwt_verify t decoded n i s] tok by simp
  have R: "(fst (authenticate jwt_verify n i (Some t) s) = TooManyAttempts)
             = (\<not> fst (rate_limit n u (connectionAttempts s)))" for n i s
    using authenticate_decoded(2) [of jwt_verify t decoded n i s] tok by simp
  have 1: "lastAttempt (?rec s1) = n1 \<and> (blocked (?rec s1) \<or> 1 \<le> count (?rec s1))"
    using rl_first [OF fresh, of n1] by (simp add: k1 A)
  have 2: "(blocked (?rec s2) \<and> lastAttempt (?rec s2) \<in> {n1, n2})
         \<or> (\<not> blocked (?rec s2) \<and> lastAttempt (?rec s2) = n2 \<and> 2 \<le> count (?rec s2))"
    using rl_next [of "connectionAttempts s1" u n2 1] 1 w
    by (auto simp add: k2 A BLOCK_DURATION_def ATTEMPT_WINDOW_def)
  have 3: "(blocked (?rec s3) \<and> lastAttempt (?rec s3) \<in> {n1, n2, n3})
         \<or> (\<not> blocked (?rec s3) \<and> lastAttempt (?rec s3) = n3 \<and> 3 \<le> count (?rec s3))"
    using rl_next [of "connectionAttempts s2" u n3 2] 2 w
    by (auto simp add: k3 A BLOCK_DURATION_def ATTEMPT_WINDOW_def)
  have 4: "blocked (?rec (snd r4)) \<and> \<not> fst (rate_limit n4 u (connectionAttempts s3))"
    using rl_next [of "connectionAttempts s3" u n4 3] 3 w
    by (auto simp add: r4 A BLOCK_DURATION_def ATTEMPT_WINDOW_def MAX_ATTEMPTS_def)
  then have first: "fst r4 = TooManyAttempts" "blocked (?rec (snd r4))"
    by (simp_all add: r4 R)
  have b4: "blocked (?rec s4)" using first(2) k4 by simp
  have rl5: "rate_limit n5 u (connectionAttempts s4)
               = (True, AList.update u \<lparr>count = 1, lastAttempt = n5, blocked = False\<rparr>
                          (connectionAttempts s4))"
    using b4 cool by (rule rl_expired)
  from valid(2) obtain r where r: "r \<in> set (user_sessions (store s4))"
      "session_user_id r = userId decoded" "token_hash r = t" "n5 < expires_at r"
    using tok(3) by auto
  have adm: "fst r5 = Admitted decoded"
    unfolding r5 using tok(1,2) _ _ r
    by (rule authenticate_admitted) (use rl5 valid(1) tok(3) in simp_all)
  have rec5: "?rec (snd r5) = \<lparr>count = 1, lastAttempt = n5, blocked = False\<rparr>"
    by (simp add: r5 A rl5)
  have "?rec (connection \<lparr>userId = u, username = username decoded, sid = i5\<rparr> (snd r5))
          = \<lparr>count = 0, lastAttempt = n5, blocked = False\<rparr>"
    by (simp add: r5 A rl5 reset_attempts_def update_conv')
  with first adm rec5 show ?thesis by simp
qed

text \<open>The hypotheses of C3 hold for alice's four attempts from the empty server.\<close>

theorem C3_witness:
  "\<not> blocked (attempts_of (connectionAttempts server0) 1)
   \<and> fst (authenticate jwt0 1000003 ''D'' (Some ''alice-token'') flood3) = TooManyAttempts
   \<and> blocked (attempts_of (connectionAttempts flood4) 1)
   \<and> BLOCK_DURATION \<le> 1010003 - lastAttempt (attempts_of (connectionAttempts flood4) 1)
   \<and> fst (authenticate jwt0 1010003 ''E'' (Some ''alice-token'') flood4)
        = Admitted \<lparr>userId = 1, username = ''alice''\<rparr>"
proof -
  have tok: "jwt0 ''alice-token'' = Some \<lparr>userId = 1, username = ''alice''\<rparr>"
            "''alice-token'' \<noteq> []" "(1::nat) = userId \<lparr>userId = 1, username = ''alice''\<rparr>"
    by (simp_all add: jwt0_def)
  have fresh: "\<not> blocked (attempts_of (connectionAttempts server0) 1)"
    by code_simp
  have w: "(1000001::int) - 1000000 < ATTEMPT_WINDOW" "(1000002::int) - 1000000 < ATTEMPT_WINDOW"
          "(1000002::int) - 1000001 < ATTEMPT_WINDOW" "(1000003::int) - 1000000 < ATTEMPT_WINDOW"
          "(1000003::int) - 1000001 < ATTEMPT_WINDOW" "(1000003::int) - 1000002 < ATTEMPT_WINDOW"
    by (simp_all add: ATTEMPT_WINDOW_def)
  have k1: "attempts_of (connectionAttempts flood1) 1
      = attempts_of (connectionAttempts (snd (authenticate jwt0 1000000 ''A'' (Some ''alice-token'') server0))) 1"
    by (simp add: flood1_def attempt_def)
  have k2: "attempts_of (connectionAttempts flood2) 1
      = attempts_of (connectionAttempts (snd (authenticate jwt0 1000001 ''B'' (Some ''alice-token'') flood1))) 1"
    by (simp add: flood2_def attempt_def)
  have k3: "attempts_of (connectionAttempts flood3) 1
      = attempts_of (connectionAttempts (snd (authenticate jwt0 1000002 ''C'' (Some ''alice-token'') flood2))) 1"
    by (simp add: flood3_def attempt_def)
  have k4: "attempts_of (connectionAttempts flood4) 1
      = attempts_of (connectionAttempts (snd (authenticate jwt0 1000003 ''D'' (Some ''alice-token'') flood3))) 1"
    by (simp add: flood4_def attempt_def)
  have cool: "BLOCK_DURATION \<le> 1010003 - lastAttempt (attempts_of (connectionAttempts flood4) 1)"
    by code_simp
  have valid: "(1::nat) \<in> fst ` set (users (store flood4))"
    "\<exists>r\<in>set (user_sessions (store flood4)).
        session_user_id r = 1 \<and> token_hash r = ''alice-token'' \<and> 1010003 < expires_at r"
    by code_simp+
  show ?thesis
    using C3_blocked_after_four_attempts [OF tok fresh w k1 k2 k3 refl k4 cool valid refl, of "''E''"]
      fresh cool k4
    by simp
qed

text \<open>C3 as the claim states it fails: when each admitted attempt is connected before the
  next one arrives, the connection handler has cleared the count, and the fourth attempt
  within the window is admitted.\<close>

theorem C3_counterexample:
  "fst (authenticate jwt0 1000000 ''A'' (Some ''alice-token'') server0) = Admitted \<lparr>userId = 1, username = ''alice''\<rparr>
 \<and> fst (authenticate jwt0 1000001 ''B'' (Some ''alice-token'') reconnect1) = Admitted \<lparr>userId = 1, username = ''alice''\<rparr>
 \<and> fst (authenticate jwt0 1000002 ''C'' (Some ''alice-token'') reconnect2) = Admitted \<lparr>userId = 1, username = ''alice''\<rparr>
 \<and> fst (authenticate jwt0 1000003 ''D'' (Some ''alice-token'') reconnect3) = Admitted \<lparr>userId = 1, username = ''alice''\<rparr>"
  by code_simp

text \<open>
  C7, as the code has it. An absent or empty token, or one that does not decode, leaves the
  state as it is. For a token that decodes: when the user's record is blocked and less than
  \<^const>\<open>BLOCK_DURATION\<close> has passed since its \<open>lastAttempt\<close>, the attempt is rejected as
  rate-limited and the state is left as it is, the record's \<open>lastAttempt\<close> included; on every
  other path (admitted, rejected by the count, rejected for the session) the record's
  \<open>lastAttempt\<close> is the time of the attempt.
\<close>

theorem C7_lastAttempt_update:
  "authenticate jwt_verify now i None s = (TokenRequired, s)
   \<and> authenticate jwt_verify now i (Some []) s = (TokenRequired, s)
   \<and> (t \<noteq> [] \<and> jwt_verify t = None \<longrightarrow>
        authenticate jwt_verify now i (Some t) s = (AuthenticationFailed, s))
   \<and> (t \<noteq> [] \<and> jwt_verify t = Some decoded \<longrightarrow>
        (if blocked (attempts_of (connectionAttempts s) (userId decoded))
            \<and> now - lastAttempt (attempts_of (connectionAttempts s) (userId decoded)) < BLOCK_DURATION
         then authenticate jwt_verify now i (Some t) s = (TooManyAttempts, s)
         else map_option lastAttempt
                (map_of (connectionAttempts (snd (authenticate jwt_verify now i (Some t) s)))
                   (userId decoded)) = Some now))"
proof -
  have "authenticate jwt_verify now i (Some t) s = (TooManyAttempts, s)"
    if "t \<noteq> []" "jwt_verify t = Some decoded"
       "blocked (attempts_of (connectionAttempts s) (userId decoded))"
       "now - lastAttempt (attempts_of (connectionAttempts s) (userId decoded)) < BLOCK_DURATION"
    using that by (simp add: authenticate_def rl_blocked)
  moreover have "map_option lastAttempt
                (map_of (connectionAttempts (snd (authenticate jwt_verify now i (Some t) s)))
                   (userId decoded)) = Some now"
    if "t \<noteq> []" "jwt_verify t = Some decoded"
       "\<not> (blocked (attempts_of (connectionAttempts s) (userId decoded))
          \<and> now - lastAttempt (attempts_of (connectionAttempts s) (userId decoded)) < BLOCK_DURATION)"
    using rl_touched [OF that(3)] authenticate_decoded(1) [of jwt_verify t decoded now i s] that(1,2)
    by (auto simp add: attempts_of_def split: option.splits)
  ultimately show ?thesis
    by (simp add: authenticate_def)
qed

text \<open>C7 at concrete attempts: one of a blocked user, one with a forged token, one that is
  admitted, one rejected by the count, and one rejected for its session.\<close>

theorem C7_witness:
  "authenticate jwt0 1000500 ''E'' (Some ''alice-token'') flood4 = (TooManyAttempts, flood4)
   \<and> authenticate jwt0 1000000 ''A'' (Some ''forged'') server0 = (AuthenticationFailed, server0)
   \<and> fst (authenticate jwt0 1000000 ''A'' (Some ''alice-token'') server0)
        = Admitted \<lparr>userId = 1, username = ''alice''\<rparr>
   \<and> map_option lastAttempt
        (map_of (connectionAttempts (snd (authenticate jwt0 1000000 ''A'' (Some ''alice-token'') server0))) 1)
       = Some 1000000
   \<and> fst (authenticate jwt0 1000003 ''D'' (Some ''alice-token'') flood3) = TooManyAttempts
   \<and> map_option lastAttempt
        (map_of (connectionAttempts (snd (authenticate jwt0 1000003 ''D'' (Some ''alice-token'') flood3))) 1)
       = Some 1000003
   \<and> fst (authenticate jwt0 2000000 ''B'' (Some ''alice-old-token'') alice_online)
        = InvalidOrExpiredToken
   \<and> map_option lastAttempt
        (map_of (connectionAttempts
           (snd (authenticate jwt0 2000000 ''B'' (Some ''alice-old-token'') alice_online))) 1)
       = Some 2000000"
proof -
  have tok: "jwt0 ''alice-token'' = Some \<lparr>userId = 1, username = ''alice''\<rparr>"
            "jwt0 ''alice-old-token'' = Some \<lparr>userId = 1, username = ''alice''\<rparr>"
            "jwt0 ''forged'' = None"
    by (simp_all add: jwt0_def)
  have b: "blocked (attempts_of (connectionAttempts flood4) 1)
           \<and> 1000500 - lastAttempt (attempts_of (connectionAttempts flood4) 1) < BLOCK_DURATION"
    by code_simp
  have f: "\<not> blocked (attempts_of (connectionAttempts server0) 1)"
          "\<not> blocked (attempts_of (connectionAttempts flood3) 1)"
          "\<not> blocked (attempts_of (connectionAttempts alice_online) 1)"
    by code_simp+
  have o: "fst (authenticate jwt0 1000000 ''A'' (Some ''alice-token'') server0)
             = Admitted \<lparr>userId = 1, username = ''alice''\<rparr>"
          "fst (authenticate jwt0 1000003 ''D'' (Some ''alice-token'') flood3) = TooManyAttempts"
          "fst (authenticate jwt0 2000000 ''B'' (Some ''alice-old-token'') alice_online)
             = InvalidOrExpiredToken"
    by code_simp+
  show ?thesis
    using C7_lastAttempt_update [where jwt_verify = jwt0 and now = 1000500 and i = "''E''"
            and s = flood4 and t = "''alice-token''" and decoded = "\<lparr>userId = 1, username = ''alice''\<rparr>"]
          C7_lastAttempt_update [where jwt_verify = jwt0 and now = 1000000 and i = "''A''"
            and s = server0 and t = "''alice-token''" and decoded = "\<lparr>userId = 1, username = ''alice''\<rparr>"]
          C7_lastAttempt_update [where jwt_verify = jwt0 and now = 1000003 and i = "''D''"
            and s = flood3 and t = "''alice-token''" and decoded = "\<lparr>userId = 1, username = ''alice''\<rparr>"]
          C7_lastAttempt_update [where jwt_verify = jwt0 and now = 2000000 and i = "''B''"
            and s = alice_online and t = "''alice-old-token''"
            and decoded = "\<lparr>userId = 1, username = ''alice''\<rparr>"]
          C7_lastAttempt_update [where jwt_verify = jwt0 and now = 1000000 and i = "''A''"
            and s = server0 and t = "''forged''"]
          tok b f o
    by simp
qed

text \<open>C7 as the claim states it fails: an attempt of a blocked user is rejected at line 32
  and the record keeps its earlier \<open>lastAttempt\<close>.\<close>

theorem C7_counterexample:
  "jwt0 ''alice-token'' = Some \<lparr>userId = 1, username = ''alice''\<rparr>
   \<and> fst (authenticate jwt0 1000500 ''E'' (Some ''alice-token'') flood4) = TooManyAttempts
   \<and> map_option lastAttempt
        (map_of (connectionAttempts (snd (authenticate jwt0 1000500 ''E'' (Some ''alice-token'') flood4))) 1)
       = Some 1000003"
  by code_simp


text \<open>
  C9. An attempt whose token decodes and that is rejected for its session ("Invalid or
  expired token") has gone through the eviction of lines 58 to 68 before the store was
  asked: when \<open>connectedUsers\<close> held another socket id \<open>e\<close> for the user, then after the
  rejected attempt the user has no entry in \<open>connectedUsers\<close>, \<open>e\<close> has none in \<open>userSockets\<close>,
  \<open>e\<close> is no socket of the server any more, and if it was one, the server has closed it.
\<close>

theorem C9_rejected_admission_has_evicted:
  assumes "authenticate jwt_verify now i (Some t) s = (InvalidOrExpiredToken, s')"
    and "jwt_verify t = Some decoded"
    and "map_of (connectedUsers s) (userId decoded) = Some e" and "e \<noteq> i"
  shows "map_of (connectedUsers s') (userId decoded) = None
       \<and> map_of (userSockets s') e = None
       \<and> get_socket s' e = None
       \<and> (get_socket s e \<noteq> None \<longrightarrow> e \<in> set (closed s'))"
proof -
  from assms(1,2) obtain tbl where
    s': "s' = evict_existing (userId decoded) i (s\<lparr>connectionAttempts := tbl\<rparr>)"
    by (auto simp add: authenticate_def Let_def split: if_splits prod.splits bool.splits)
  have c: "map_of (connectedUsers (s\<lparr>connectionAttempts := tbl\<rparr>)) (userId decoded) = Some e"
    using assms(3) by simp
  have g: "get_socket (s\<lparr>connectionAttempts := tbl\<rparr>) e = get_socket s e"
    by (simp add: get_socket_def)
  show ?thesis
    unfolding s' using evict_existing_evicts [OF c assms(4)] g by simp
qed

text \<open>alice, connected on \<open>A\<close>, presents on a new socket \<open>B\<close> a token that still decodes but has
  no session: the attempt is rejected and \<open>A\<close> is gone.\<close>

theorem C9_witness:
  "map_of (connectedUsers alice_online) 1 = Some ''A''
   \<and> get_socket alice_online ''A'' = Some (alice ''A'')
   \<and> fst (authenticate jwt0 2000000 ''B'' (Some ''alice-old-token'') alice_online) = InvalidOrExpiredToken
   \<and> map_of (connectedUsers (snd (authenticate jwt0 2000000 ''B'' (Some ''alice-old-token'') alice_online))) 1 = None
   \<and> map_of (userSockets (snd (authenticate jwt0 2000000 ''B'' (Some ''alice-old-token'') alice_online))) ''A'' = None
   \<and> get_socket (snd (authenticate jwt0 2000000 ''B'' (Some ''alice-old-token'') alice_online)) ''A'' = None
   \<and> ''A'' \<in> set (closed (snd (authenticate jwt0 2000000 ''B'' (Some ''alice-old-token'') alice_online)))"
proof -
  have f: "fst (authenticate jwt0 2000000 ''B'' (Some ''alice-old-token'') alice_online)
         = InvalidOrExpiredToken"
    by code_simp
  then have r: "authenticate jwt0 2000000 ''B'' (Some ''alice-old-token'') alice_online
         = (InvalidOrExpiredToken, snd (authenticate jwt0 2000000 ''B'' (Some ''alice-old-token'') alice_online))"
    by (metis prod.collapse)
  have d: "jwt0 ''alice-old-token'' = Some \<lparr>userId = 1, username = ''alice''\<rparr>"
    by (simp add: jwt0_def)
  have c: "map_of (connectedUsers alice_online) (userId \<lparr>userId = 1, username = ''alice''\<rparr>) = Some ''A''"
    by code_simp
  have n: "''A'' \<noteq> ''B''" by simp
  have g: "get_socket alice_online ''A'' = Some (alice ''A'')" by code_simp
  show ?thesis
    using C9_rejected_admission_has_evicted [OF r d c n] f c g by simp
qed

subsection \<open>The session registry\<close>

text \<open>
  C1, at the input where the code breaks it. The sockets \<open>A\<close> and \<open>B\<close> of alice are both
  admitted before either is registered (neither middleware run finds an entry to evict);
  after both \<^verbatim>\<open>connection\<close> handlers \<open>userSockets\<close> holds two entries for alice, both sockets
  are sockets of the server, and the server has closed none.
\<close>

theorem C1_two_entries_for_one_user:
  "fst (authenticate jwt0 1000000 ''A'' (Some ''alice-token'') bob_online)
     = Admitted \<lparr>userId = 1, username = ''alice''\<rparr>
   \<and> fst (authenticate jwt0 1000010 ''B'' (Some ''alice-token'') race1)
     = Admitted \<lparr>userId = 1, username = ''alice''\<rparr>
   \<and> filter (\<lambda>e. userId (snd e) = 1) (userSockets race_state)
     = [(''A'', \<lparr>userId = 1, username = ''alice''\<rparr>), (''B'', \<lparr>userId = 1, username = ''alice''\<rparr>)]
   \<and> map sid (sockets race_state) = [''Z'', ''A'', ''B'']
   \<and> closed race_state = []"
  by code_simp

text \<open>
  C2, as the code has it. The \<^verbatim>\<open>disconnect\<close> handler removes the entry of the socket's user
  from \<open>connectedUsers\<close> whatever socket id is stored there, and the entry of the socket's own
  id from \<open>userSockets\<close>; the entries of other users and of other sockets stay as they are.
\<close>

theorem C2_disconnect_removes_user_entry:
  "map_of (connectedUsers (on_disconnect socket s)) (userId socket) = None
   \<and> map_of (userSockets (on_disconnect socket s)) (sid socket) = None
   \<and> (\<forall>u. u \<noteq> userId socket \<longrightarrow>
          map_of (connectedUsers (on_disconnect socket s)) u = map_of (connectedUsers s) u)
   \<and> (\<forall>i. i \<noteq> sid socket \<longrightarrow>
          map_of (userSockets (on_disconnect socket s)) i = map_of (userSockets s) i)"
  by (simp add: delete_conv')

text \<open>C2 at the disconnect of alice's socket \<open>B\<close>.\<close>

theorem C2_witness:
  "map_of (connectedUsers (on_disconnect (alice ''B'') race_state)) 1 = None
   \<and> map_of (userSockets (on_disconnect (alice ''B'') race_state)) ''B'' = None
   \<and> map_of (connectedUsers (on_disconnect (alice ''B'') race_state)) 2 = Some ''Z''
   \<and> map_of (userSockets (on_disconnect (alice ''B'') race_state)) ''A''
        = Some \<lparr>userId = 1, username = ''alice''\<rparr>"
proof -
  have "map_of (connectedUsers race_state) 2 = Some ''Z''"
       "map_of (userSockets race_state) ''A'' = Some \<lparr>userId = 1, username = ''alice''\<rparr>"
    by code_simp+
  then show ?thesis
    using C2_disconnect_removes_user_entry [of "alice ''B''" race_state]
    by (simp add: alice_def)
qed

text \<open>C2 as the claim states it fails: \<open>connectedUsers\<close> holds \<open>B\<close> for alice, socket \<open>A\<close> of
  alice closes, and alice's entry is removed although \<open>B\<close> is still a socket of the server.\<close>

theorem C2_counterexample:
  "map_of (connectedUsers race_state) 1 = Some ''B''
   \<and> get_socket race_state ''B'' = Some (alice ''B'')
   \<and> map_of (connectedUsers (socket_close (alice ''A'') race_state)) 1 = None
   \<and> get_socket (socket_close (alice ''A'') race_state) ''B'' = Some (alice ''B'')"
  by code_simp

subsection \<open>Presence\<close>

text \<open>
  C4, at the input where the code breaks it. alice has the sockets \<open>A\<close> and \<open>B\<close>; \<open>A\<close> closes.
  \<open>hasOtherConnections\<close> is false (it never is true, see \<open>number_not_among_strings\<close>): alice's
  status goes from online to offline and bob is sent the offline status, while \<open>B\<close> is still
  a socket of the server with its entry in \<open>userSockets\<close>. When \<open>B\<close> closes too, bob is sent the
  offline status a second time.
\<close>

theorem C4_offline_with_a_connection_left:
  "get_socket (socket_close (alice ''A'') race_state) ''B'' = Some (alice ''B'')
   \<and> map_of (userSockets (socket_close (alice ''A'') race_state)) ''B''
       = Some \<lparr>userId = 1, username = ''alice''\<rparr>
   \<and> map_option status (map_of (users (store race_state)) 1) = Some ''online''
   \<and> map_option status (map_of (users (store (socket_close (alice ''A'') race_state))) 1)
       = Some ''offline''
   \<and> delivered (socket_close (alice ''A'') race_state) ''Z''
       = delivered race_state ''Z'' @ [UserStatusChange 1 ''offline'']
   \<and> delivered (socket_close (alice ''B'') (socket_close (alice ''A'') race_state)) ''Z''
       = delivered race_state ''Z'' @ [UserStatusChange 1 ''offline'', UserStatusChange 1 ''offline'']"
  by code_simp


subsection \<open>Sending a message\<close>






subsection \<open>Read receipts\<close>

text \<open>
  C6, as the code has it. \<^verbatim>\<open>mark_messages_read\<close> is handled twice for the same input with a
  non-zero conversation id and a list of message ids, every listed id is the id of a
  message, the user's row exists, and \<^verbatim>\<open>message_reads\<close> has no duplicate row (its \<^verbatim>\<open>UNIQUE\<close>
  constraint). Then \<^verbatim>\<open>message_reads\<close> holds exactly one row for each listed message and the
  user, the second call has added no row, neither call has thrown, and exactly two \<^verbatim>\<open>messages_read\<close> events have been
  emitted, each to the other sockets of the conversation's room and each with the whole
  list.
\<close>

theorem C6_mark_read_twice:
  assumes "conversationId d = Some cid" "cid \<noteq> 0" "messageIds d = Some ids"
    and "set ids \<subseteq> set (map msg_id (messages (store s)))"
    and "userId socket \<in> set (map fst (users (store s)))"
    and "distinct (message_reads (store s))"
    and "s1 = on_mark_messages_read socket d s"
    and "s2 = on_mark_messages_read socket d s1"
    and "others = filter (\<lambda>j. j \<noteq> sid socket) (room_members s (ConversationRoom cid))"
  shows "(\<forall>m\<in>set ids. count_list (message_reads (store s2)) (m, userId socket) = 1)
       \<and> distinct (message_reads (store s2))
       \<and> message_reads (store s2) = message_reads (store s1)
       \<and> fst (handleMarkMessagesRead socket d s) = Returned
       \<and> fst (handleMarkMessagesRead socket d s1) = Returned
       \<and> outbox s2 = outbox s @ [(others, MessagesRead (userId socket) ids cid),
                                  (others, MessagesRead (userId socket) ids cid)]"
proof -
  let ?d1 = "snd (insert_reads (userId socket) ids (store s))"
  have s1: "s1 = s\<lparr>store := ?d1,
                    outbox := outbox s @ [(others, MessagesRead (userId socket) ids cid)]\<rparr>"
    using mark_read_returns [OF assms(1-5)] by (simp add: assms(7,9) on_mark_messages_read_def)
  have rows: "\<forall>m\<in>set ids. (m, userId socket) \<in> set (message_reads ?d1)"
    using insert_reads_rows [OF assms(4,5)] by simp
  have dist: "distinct (message_reads ?d1)"
    using assms(6) by (rule insert_reads_distinct)
  have again: "insert_reads (userId socket) ids ?d1 = (Returned, ?d1)"
    using rows by (rule insert_reads_again)
  have s2: "s2 = s1\<lparr>outbox := outbox s1 @ [(others, MessagesRead (userId socket) ids cid)]\<rparr>"
    using assms(1-3) again
    by (simp add: assms(8,9) s1 on_mark_messages_read_def handleMarkMessagesRead_def
          socket_to_emit_def room_members_def)
  have r1: "fst (handleMarkMessagesRead socket d s) = Returned"
    using mark_read_returns [OF assms(1-5)] by simp
  have r2: "fst (handleMarkMessagesRead socket d s1) = Returned"
    using assms(1-3) again by (simp add: s1 handleMarkMessagesRead_def)
  show ?thesis
    using rows dist r1 r2 by (simp add: s2 s1 count_list_distinct)
qed

text \<open>bob marks message 1 read, twice.\<close>

theorem C6_witness:
  "count_list (message_reads (store (on_mark_messages_read (bob ''Z'') read1
       (on_mark_messages_read (bob ''Z'') read1 chat_state)))) (1, 2) = 1
   \<and> outbox (on_mark_messages_read (bob ''Z'') read1
       (on_mark_messages_read (bob ''Z'') read1 chat_state))
      = outbox chat_state @ [([''A''], MessagesRead 2 [1] 42), ([''A''], MessagesRead 2 [1] 42)]"
proof -
  have h: "conversationId read1 = Some 42" "(42::nat) \<noteq> 0" "messageIds read1 = Some [1]"
    by (simp_all add: read1_def)
  have fk: "set [1] \<subseteq> set (map msg_id (messages (store chat_state)))"
    "userId (bob ''Z'') \<in> set (map fst (users (store chat_state)))"
    "distinct (message_reads (store chat_state))"
    by code_simp+
  have others: "[''A''] = filter (\<lambda>j. j \<noteq> sid (bob ''Z'')) (room_members chat_state (ConversationRoom 42))"
    by code_simp
  have u: "userId (bob ''Z'') = 2" by (simp add: bob_def)
  note T = C6_mark_read_twice [OF h fk refl refl others, unfolded u]
  from T [THEN conjunct1] have c: "count_list (message_reads (store (on_mark_messages_read (bob ''Z'') read1
       (on_mark_messages_read (bob ''Z'') read1 chat_state)))) (1, 2) = 1"
    by simp
  from c T [THEN conjunct2, THEN conjunct2, THEN conjunct2, THEN conjunct2, THEN conjunct2]
  show ?thesis ..
qed

text \<open>C6 as the claim states it fails: bob marks message 99 read, twice. No message 99
  exists, the insert violates the foreign key of \<^verbatim>\<open>message_reads.message_id\<close>, the handler
  throws before line 300: no row, and no broadcast at all.\<close>

theorem C6_counterexample:
  "message_reads (store (on_mark_messages_read (bob ''Z'') read99
       (on_mark_messages_read (bob ''Z'') read99 chat_state))) = []
   \<and> outbox (on_mark_messages_read (bob ''Z'') read99
       (on_mark_messages_read (bob ''Z'') read99 chat_state)) = outbox chat_state"
  by code_simp

text \<open>
  C10, as the code has it. No membership is asked for: for an input with a non-zero
  conversation id and a list of message ids, every one the id of some message (of whatever
  conversation), sent on the socket of a user whose row exists, \<^verbatim>\<open>message_reads\<close> afterwards
  holds a row for each listed message and the user, and one \<^verbatim>\<open>messages_read\<close> event with the
  list as it came has been emitted to the other sockets of the named conversation's room.
\<close>

theorem C10_mark_read_is_unchecked:
  assumes "conversationId d = Some cid" "cid \<noteq> 0" "messageIds d = Some ids"
    and "set ids \<subseteq> set (map msg_id (messages (store s)))"
    and "userId socket \<in> set (map fst (users (store s)))"
    and "s' = on_mark_messages_read socket d s"
  shows "(\<forall>m\<in>set ids. (m, userId socket) \<in> set (message_reads (store s')))
       \<and> outbox s' = outbox s @ [(filter (\<lambda>j. j \<noteq> sid socket) (room_members s (ConversationRoom cid)),
                                    MessagesRead (userId socket) ids cid)]"
  using mark_read_returns [OF assms(1-5)] insert_reads_rows [OF assms(4,5)]
  by (simp add: assms(6) on_mark_messages_read_def)

text \<open>carol, who is not in conversation 42 and whose socket is not in its room, marks
  message 1 read there.\<close>

theorem C10_witness:
  "\<not> participant_or_member (store chat_state) 42 (userId (carol ''C''))
   \<and> (1, 3) \<in> set (message_reads (store (on_mark_messages_read (carol ''C'') read1 chat_state)))
   \<and> outbox (on_mark_messages_read (carol ''C'') read1 chat_state)
      = outbox chat_state @ [([''Z'', ''A''], MessagesRead 3 [1] 42)]"
proof -
  have h: "conversationId read1 = Some 42" "(42::nat) \<noteq> 0" "messageIds read1 = Some [1]"
    by (simp_all add: read1_def)
  have fk: "set [1] \<subseteq> set (map msg_id (messages (store chat_state)))"
    "userId (carol ''C'') \<in> set (map fst (users (store chat_state)))"
    by code_simp+
  have n: "\<not> participant_or_member (store chat_state) 42 (userId (carol ''C''))"
    by code_simp
  have others: "filter (\<lambda>j. j \<noteq> sid (carol ''C'')) (room_members chat_state (ConversationRoom 42))
                = [''Z'', ''A'']"
    by code_simp
  show ?thesis
    using C10_mark_read_is_unchecked [OF h fk refl] n others by (simp add: carol_def)
qed

text \<open>C10 as the claim states it fails: bob marks the messages 1 and 99 read. The row for
  message 1 is inserted, the insert for 99 violates the foreign key, and the handler throws:
  no row for 99 and no broadcast.\<close>

theorem C10_counterexample:
  "message_reads (store (on_mark_messages_read (bob ''Z'') read1_99 chat_state)) = [(1, 2)]
   \<and> outbox (on_mark_messages_read (bob ''Z'') read1_99 chat_state) = outbox chat_state"
  by code_simp


subsection \<open>Further properties\<close>

text \<open>
  X1. Eviction when the attempt is admitted. \<open>connectedUsers\<close> holds another socket id \<open>e\<close> for
  the user at the time the middleware runs. Then after the middleware the user has no entry
  in \<open>connectedUsers\<close>, \<open>e\<close> has none in \<open>userSockets\<close> and is no socket of the server (the server
  has closed it if it was one); after the \<^verbatim>\<open>connection\<close> handler of the new socket,
  \<open>connectedUsers\<close> maps the user to the new socket, \<open>userSockets\<close> maps the new socket to the
  user, and \<open>e\<close> still has no entry.
\<close>

theorem admitted_connection_replaces_prior:
  assumes "authenticate jwt_verify now i (Some t) s = (Admitted decoded, s1)"
    and "map_of (connectedUsers s) (userId decoded) = Some e" and "e \<noteq> i"
    and "s2 = connection \<lparr>userId = userId decoded, username = username decoded, sid = i\<rparr> s1"
  shows "map_of (connectedUsers s1) (userId decoded) = None
       \<and> map_of (userSockets s1) e = None
       \<and> get_socket s1 e = None
       \<and> (get_socket s e \<noteq> None \<longrightarrow> e \<in> set (closed s1))
       \<and> map_of (connectedUsers s2) (userId decoded) = Some i
       \<and> map_of (userSockets s2) i = Some \<lparr>userId = userId decoded, username = username decoded\<rparr>
       \<and> map_of (userSockets s2) e = None
       \<and> get_socket s2 e = None"
proof -
  from assms(1) obtain tbl where
    s1: "s1 = evict_existing (userId decoded) i (s\<lparr>connectionAttempts := tbl\<rparr>)"
    by (auto simp add: authenticate_def Let_def split: option.splits if_splits prod.splits bool.splits)
  have c: "map_of (connectedUsers (s\<lparr>connectionAttempts := tbl\<rparr>)) (userId decoded) = Some e"
    using assms(2) by simp
  have g: "get_socket (s\<lparr>connectionAttempts := tbl\<rparr>) e = get_socket s e"
    by (simp add: get_socket_def)
  note ev = evict_existing_evicts [OF c assms(3), folded s1]
  have cu: "connectedUsers s2 = AList.update (userId decoded) i (connectedUsers s1)"
    and us: "userSockets s2 = AList.update i \<lparr>userId = userId decoded, username = username decoded\<rparr>
                                (userSockets s1)"
    and so: "sockets s2 = filter (\<lambda>k. sid k \<noteq> i) (sockets s1)
                            @ [\<lparr>userId = userId decoded, username = username decoded, sid = i\<rparr>]"
    by (simp_all add: assms(4) connection_def Let_def broadcastUserStatus_eq)
  have "get_socket s2 e = None"
    using ev(3) assms(3) by (auto simp add: get_socket_def so find_None_iff)
  then show ?thesis
    using ev g assms(3) by (simp add: cu us update_conv')
qed

text \<open>alice, connected on \<open>A\<close>, connects on \<open>B\<close>.\<close>

theorem admitted_connection_replaces_prior_witness:
  "map_of (connectedUsers alice_online) 1 = Some ''A''
   \<and> fst (authenticate jwt0 2000000 ''B'' (Some ''alice-token'') alice_online)
       = Admitted \<lparr>userId = 1, username = ''alice''\<rparr>
   \<and> ''A'' \<in> set (closed (snd (authenticate jwt0 2000000 ''B'' (Some ''alice-token'') alice_online)))
   \<and> map_of (connectedUsers (connection (alice ''B'')
         (snd (authenticate jwt0 2000000 ''B'' (Some ''alice-token'') alice_online)))) 1 = Some ''B''
   \<and> map_of (userSockets (connection (alice ''B'')
         (snd (authenticate jwt0 2000000 ''B'' (Some ''alice-token'') alice_online)))) ''A'' = None"
proof -
  have f: "fst (authenticate jwt0 2000000 ''B'' (Some ''alice-token'') alice_online)
             = Admitted \<lparr>userId = 1, username = ''alice''\<rparr>"
    by code_simp
  then have r: "authenticate jwt0 2000000 ''B'' (Some ''alice-token'') alice_online
         = (Admitted \<lparr>userId = 1, username = ''alice''\<rparr>,
            snd (authenticate jwt0 2000000 ''B'' (Some ''alice-token'') alice_online))"
    by (metis prod.collapse)
  have c: "map_of (connectedUsers alice_online) (userId \<lparr>userId = 1, username = ''alice''\<rparr>) = Some ''A''"
    by code_simp
  have n: "''A'' \<noteq> ''B''" by simp
  have g: "get_socket alice_online ''A'' \<noteq> None" by code_simp
  show ?thesis
    using admitted_connection_replaces_prior [OF r c n refl] f c g by (simp add: alice_def)
qed

text \<open>
  X2. The access check of \<^verbatim>\<open>handleSendMessage\<close> (lines 227 to 235) throws exactly when the
  conversation id or the user id is beyond \<^verbatim>\<open>INTEGER\<close>, and finds a row exactly when the user
  is a participant of the conversation or a member of its group.
\<close>

theorem access_check_is_membership:
  "(accessCheck d cid uid = None) = (\<not> (pg_integer cid \<and> pg_integer uid))
   \<and> (\<exists>r rs. accessCheck d cid uid = Some (r # rs)) = participant_or_member d cid uid"
  using accessCheck_member [of d cid uid] by (simp add: accessCheck_def)

text \<open>alice is in conversation 42, carol is not, and 2147483648 is no \<^verbatim>\<open>INTEGER\<close>.\<close>

theorem access_check_is_membership_witness:
  "accessCheck db0 42 1 = Some [42] \<and> accessCheck db0 42 3 = Some []
   \<and> accessCheck db0 2147483648 1 = None"
proof -
  have "accessCheck db0 42 1 = Some [42]" "accessCheck db0 42 3 = Some []"
    by code_simp+
  moreover have "\<not> (pg_integer 2147483648 \<and> pg_integer 1)"
    by (simp add: pg_integer_def)
  ultimately show ?thesis
    using access_check_is_membership [of db0 2147483648 1] by simp
qed

text \<open>
  X3. A \<^verbatim>\<open>mark_messages_read\<close> event without a conversation id (absent or zero) or without a
  list of message ids changes nothing and emits nothing.
\<close>

theorem malformed_mark_read_is_ignored:
  assumes "conversationId d = None \<or> conversationId d = Some 0 \<or> messageIds d = None"
  shows "on_mark_messages_read socket d s = s"
  using assms
  by (auto simp add: on_mark_messages_read_def handleMarkMessagesRead_def split: option.splits)

text \<open>bob sends a receipt without a list.\<close>

theorem malformed_mark_read_is_ignored_witness:
  "on_mark_messages_read (bob ''Z'') \<lparr>conversationId = Some 42, messageIds = None\<rparr> chat_state
     = chat_state"
  using malformed_mark_read_is_ignored
          [of "\<lparr>conversationId = Some 42, messageIds = None\<rparr>" "bob ''Z''" chat_state]
  by simp

text \<open>
  X4. The scenario of alice and bob: alice sends \<open>hi\<close> to conversation 42 and bob's socket is
  delivered the \<^verbatim>\<open>new_message\<close>; bob marks the message read and alice's socket is delivered
  \<^verbatim>\<open>messages_read\<close> with bob's id, the message id and the conversation id.
\<close>

theorem scenario_alice_bob:
  "delivered chat_state ''Z''
     = delivered carol_online ''Z''
       @ [NewMessage \<lparr>data_id = 1, data_conversationId = 42, senderId = 1,
                       sender = \<lparr>sender_username = ''alice'', displayName = ''Alice'', avatarUrl = None\<rparr>,
                       data_content = ''hi'', data_messageType = ''text'', data_replyTo = None,
                       createdAt = 1000100\<rparr>]
   \<and> delivered (on_mark_messages_read (bob ''Z'') read1 chat_state) ''A''
     = delivered chat_state ''A'' @ [MessagesRead 2 [1] 42]"
  by code_simp

end
